theory Spec2Isabelle
  imports Main "HOL-Library.AList"
begin

section \<open>Qgular: the observable data model and the widget group\<close>

text \<open>
  The development embeds \<^verbatim>\<open>pub/System/QgularContrib/qgular.uncompressed.js\<close>.
  Conventions of the embedding:

  \<^item> A JavaScript object with string keys is an association list in insertion order that
    holds the properties of the object: \<^verbatim>\<open>o[k]\<close> is \<open>map_of o k\<close> (\<open>None\<close> for
    \<^verbatim>\<open>undefined\<close>) and \<^verbatim>\<open>delete o[k]\<close> is \<open>AList.delete k o\<close>. The objects of a snapshot
    and of a patch are plain objects, with \<^verbatim>\<open>Object.prototype\<close> as their prototype when
    they are made. In a snapshot a property that holds \<^verbatim>\<open>undefined\<close> is not told apart
    from an absent one: reading it and copying the object with \<^verbatim>\<open>$.extend\<close> give the
    same for both. The assignment \<^verbatim>\<open>o[k] = v\<close> is \<open>assign\<close> below, which sets the name
    \<^verbatim>\<open>__proto__\<close> apart. What a plain object inherits from \<^verbatim>\<open>Object.prototype\<close> is
    modelled where the code reads a plain object at a key of the caller's choice and
    tests the result, in the dictionary of \<^verbatim>\<open>QDataDict\<close>.
  \<^item> A thrown exception is the \<open>Inl\<close> side of a sum. A method that mutates its receiver
    and then throws returns the mutated state together with the exception, since
    JavaScript does not roll anything back.
  \<^item> The data nodes have the prototype chains that the file builds. The file replaces
    \<^verbatim>\<open>QDataNode.prototype\<close> by \<^verbatim>\<open>Object.create(QPubSub)\<close> after it has put the methods
    there, and derives the prototypes of \<^verbatim>\<open>QData\<close>, \<^verbatim>\<open>QDataList\<close> and \<^verbatim>\<open>QDataDict\<close> from the
    constructor functions (\<^verbatim>\<open>Object.create(QDataNode)\<close>) instead of from their
    prototypes. An instance therefore reaches the methods of its own class and none of
    \<^verbatim>\<open>QPubSub\<close> or \<^verbatim>\<open>QDataNode\<close>; calling a method that the receiver does not reach
    raises \<^verbatim>\<open>TypeError\<close>. The bodies of the methods that no instance reaches are
    embedded all the same.
  \<^item> The methods that the file writes for a widget group (\<^verbatim>\<open>_insertWidget\<close>,
    \<^verbatim>\<open>_insertElem\<close>, \<^verbatim>\<open>_removeWidget\<close>) are attached to \<^verbatim>\<open>QWidgetFactory.prototype\<close>, a
    name the file does not declare. They are embedded as functions of a group. The
    handler of the \<^verbatim>\<open>add\<close> event is embedded twice: as its body runs with those methods
    at hand (\<open>QWidgetGroup_addHandler\<close>), and as the file runs it
    (\<open>QWidgetGroup_addHandler_invoked\<close>).
  \<^item> Observable nodes live in a store, because a collection and its elements refer to
    each other.
  \<^item> Of jQuery only \<^verbatim>\<open>$.each\<close> and \<^verbatim>\<open>$.extend\<close> matter here. \<^verbatim>\<open>$.each\<close> does nothing on
    \<^verbatim>\<open>null\<close> or \<^verbatim>\<open>undefined\<close> (jQuery 1.12, 2.2 and later), visits an array-like object
    by index and any other object by name; \<^verbatim>\<open>$.extend({}, x)\<close> copies the own enumerable
    properties of \<^verbatim>\<open>x\<close>.
\<close>

subsection \<open>Values and exceptions\<close>

datatype js_error = TypeError | Error string

text \<open>
  The values a snapshot or a patch holds: JSON scalars, nested mappings and the delete
  marker (an instance of \<^verbatim>\<open>QDeleteThis\<close>). Integers stand for the numbers: the code
  reads a number only as the \<^verbatim>\<open>length\<close> of an object and as a property name. JSON
  arrays are left out.
\<close>

datatype jsval =
    JNull
  | JBool bool
  | JNum int
  | JStr string
  | JObj "(string \<times> jsval) list"
  | JDeleteThis

fun typeof :: "jsval \<Rightarrow> string" where
  "typeof JNull = ''object''"
| "typeof (JBool b) = ''boolean''"
| "typeof (JNum n) = ''number''"
| "typeof (JStr s) = ''string''"
| "typeof (JObj kvs) = ''object''"
| "typeof JDeleteThis = ''object''"

fun instanceof_QDeleteThis :: "jsval \<Rightarrow> bool" where
  "instanceof_QDeleteThis JDeleteThis = True"
| "instanceof_QDeleteThis v = False"

text \<open>
  \<^verbatim>\<open>
  function QDeleteThis() {
    if (this === window) {
      return new QDeleteThis();
    }
  }
  \<close>
  The function is embedded by what a call returns (\<open>None\<close> for \<^verbatim>\<open>undefined\<close>), given
  the \<^verbatim>\<open>this\<close> of the call: \<^verbatim>\<open>undefined\<close>, the window, or another object (the receiver of
  a method call, or the object that \<^verbatim>\<open>new\<close> has just made).
\<close>

datatype this_value = This_undefined | This_window | This_object

fun QDeleteThis :: "this_value \<Rightarrow> jsval option" where
  "QDeleteThis This_window = Some JDeleteThis"
| "QDeleteThis This_undefined = None"
| "QDeleteThis This_object = None"


definition call_QDeleteThis :: "jsval option" where
  "call_QDeleteThis = QDeleteThis This_undefined"

definition digit_char :: "nat \<Rightarrow> char" where
  "digit_char d = ''0123456789'' ! d"

text \<open>
  The decimal numeral of a natural number and of an integer, as \<^verbatim>\<open>String(n)\<close> gives
  them.
\<close>

function ToString_nat :: "nat \<Rightarrow> string" where
  "ToString_nat n =
     (let last_digit = digit_char (n mod 10)
      in if n div 10 = 0 then [last_digit] else ToString_nat (n div 10) @ [last_digit])"
  by pat_completeness auto
termination
  by (relation "measure (\<lambda>n. n)") auto

declare ToString_nat.simps [simp del]

definition ToString_int :: "int \<Rightarrow> string" where
  "ToString_int i = (if 0 \<le> i then ToString_nat (nat i) else CHR ''-'' # ToString_nat (nat (- i)))"

text \<open>
  The own enumerable properties of a value, as \<^verbatim>\<open>$.extend\<close> copies them: the entries of
  a mapping, the characters of a string under their positions, and nothing for
  \<^verbatim>\<open>null\<close>, a number, a boolean or a delete marker.
\<close>

definition string_entries :: "string \<Rightarrow> (string \<times> jsval) list" where
  "string_entries s = map (\<lambda>i. (ToString_nat i, JStr [s ! i])) [0..<length s]"

fun own_entries :: "jsval \<Rightarrow> (string \<times> jsval) list" where
  "own_entries (JObj kvs) = kvs"
| "own_entries (JStr s) = string_entries s"
| "own_entries v = []"

text \<open>\<^verbatim>\<open>$.extend({}, x)\<close>, where \<open>None\<close> is \<^verbatim>\<open>undefined\<close>.\<close>

fun extend_empty :: "jsval option \<Rightarrow> (string \<times> jsval) list" where
  "extend_empty None = []"
| "extend_empty (Some v) = own_entries v"

subsection \<open>The merge of \<^verbatim>\<open>QData.set\<close>\<close>

text \<open>
  \<^verbatim>\<open>$.each(d, f)\<close> first asks whether \<open>d\<close> is array-like. An object is array-like when
  its \<^verbatim>\<open>length\<close> is the number 0, or a positive number with \<^verbatim>\<open>(length - 1) in d\<close>. An
  array-like object is visited by index, \<^verbatim>\<open>f(i, d[i])\<close> for \<open>i\<close> from 0 below the length,
  whatever other properties it has; any other object is visited by name, \<^verbatim>\<open>f(k, d[k])\<close>
  for each of its properties. An entry of the visit is the name and the value handed
  to \<open>f\<close>, \<open>None\<close> where \<^verbatim>\<open>d[i]\<close> is \<^verbatim>\<open>undefined\<close>.
\<close>

definition array_like :: "(string \<times> jsval) list \<Rightarrow> bool" where
  "array_like kvs =
     (case map_of kvs ''length'' of
        Some (JNum n) \<Rightarrow> n = 0 \<or> (0 < n \<and> map_of kvs (ToString_int (n - 1)) \<noteq> None)
      | _ \<Rightarrow> False)"

definition each_entries :: "(string \<times> jsval) list \<Rightarrow> (string \<times> jsval option) list" where
  "each_entries kvs =
     (if array_like kvs then
        (case map_of kvs ''length'' of
           Some (JNum n) \<Rightarrow> map (\<lambda>i. (ToString_nat i, map_of kvs (ToString_nat i))) [0..<nat n]
         | _ \<Rightarrow> [])
      else map (\<lambda>(k, v). (k, Some v)) kvs)"

text \<open>What \<^verbatim>\<open>$.each\<close> visits in a value of type \<^verbatim>\<open>object\<close>: nothing in \<^verbatim>\<open>null\<close>.\<close>

fun each_of :: "jsval \<Rightarrow> (string \<times> jsval option) list" where
  "each_of (JObj kvs) = each_entries kvs"
| "each_of v = []"

text \<open>
  The assignment \<^verbatim>\<open>o[k] = v\<close>. Assigning \<^verbatim>\<open>undefined\<close> leaves a property that reads as an
  absent one. The name \<^verbatim>\<open>__proto__\<close> is an accessor that \<open>o\<close> inherits from
  \<^verbatim>\<open>Object.prototype\<close>: its setter ignores a number, a string, a boolean and
  \<^verbatim>\<open>undefined\<close>, so such an assignment stores nothing. Given an object it replaces the
  prototype of \<open>o\<close>, and \<^verbatim>\<open>o["__proto__"]\<close> reads that object afterwards; an entry
  \<^verbatim>\<open>__proto__\<close> of an association list stands for a prototype set in this way, and what
  \<open>o\<close> then inherits through it is not modelled.
\<close>

definition assign ::
  "string \<Rightarrow> jsval option \<Rightarrow> (string \<times> jsval) list \<Rightarrow> (string \<times> jsval) list" where
  "assign k v oo =
     (case v of
        None \<Rightarrow> if k = ''__proto__'' then oo else AList.delete k oo
      | Some w \<Rightarrow> if k = ''__proto__'' \<and> typeof w \<noteq> ''object'' then oo else AList.update k w oo)"

text \<open>
  \<^verbatim>\<open>
  var apply = function(o, d) {
    $.each(d, function(k, v) {
      if (v instanceof QDeleteThis) {
        delete o[k];
      } else if (typeof v !== 'object') {
        o[k] = v;
      } else {
        o[k] = $.extend({}, o[k]);
        apply(o[k], v);
      }
    });
  };
  \<close>
  \<open>apply_each\<close> is the loop over the entries that \<^verbatim>\<open>$.each\<close> visits, and \<open>QData_apply\<close> is
  \<^verbatim>\<open>apply\<close> on a mapping \<open>d\<close>. In the last branch \<open>v\<close> is a mapping or \<^verbatim>\<open>null\<close>. The
  recursion ends because the nesting of the values gets smaller.
\<close>

fun list_max :: "nat list \<Rightarrow> nat" where
  "list_max [] = 0"
| "list_max (x # xs) = max x (list_max xs)"

fun depth :: "jsval \<Rightarrow> nat" where
  "depth (JObj kvs) = Suc (list_max (map (\<lambda>p. depth (snd p)) kvs))"
| "depth v = 0"

definition entries_depth :: "(string \<times> jsval option) list \<Rightarrow> nat" where
  "entries_depth es = list_max (map (\<lambda>e. case snd e of None \<Rightarrow> 0 | Some v \<Rightarrow> Suc (depth v)) es)"

lemma list_max_member: "x \<in> set xs \<Longrightarrow> x \<le> list_max xs"
  by (induction xs) auto

lemma list_max_bound: "(\<And>x. x \<in> set xs \<Longrightarrow> x \<le> b) \<Longrightarrow> list_max xs \<le> b"
  by (induction xs) auto

lemma each_entries_values:
  "(k, Some v) \<in> set (each_entries kvs) \<Longrightarrow> v \<in> snd ` set kvs"
  by (auto simp: each_entries_def split: if_splits option.splits jsval.splits
      dest!: map_of_SomeD sym [of "Some v"]) force+

lemma entries_depth_each_entries: "entries_depth (each_entries kvs) \<le> depth (JObj kvs)"
proof -
  have "x \<le> Suc (list_max (map (\<lambda>p. depth (snd p)) kvs))"
    if "x \<in> set (map (\<lambda>e. case snd e of None \<Rightarrow> 0 | Some v \<Rightarrow> Suc (depth v)) (each_entries kvs))"
    for x
  proof -
    from that obtain k w where e: "(k, w) \<in> set (each_entries kvs)"
      and x: "x = (case w of None \<Rightarrow> 0 | Some v \<Rightarrow> Suc (depth v))"
      by auto
    show ?thesis
    proof (cases w)
      case None
      with x show ?thesis by simp
    next
      case (Some v)
      with e have "v \<in> snd ` set kvs" by (auto dest: each_entries_values)
      then have "depth v \<in> set (map (\<lambda>p. depth (snd p)) kvs)" by auto
      then have "depth v \<le> list_max (map (\<lambda>p. depth (snd p)) kvs)" by (rule list_max_member)
      with x Some show ?thesis by simp
    qed
  qed
  then have "entries_depth (each_entries kvs) \<le> Suc (list_max (map (\<lambda>p. depth (snd p)) kvs))"
    unfolding entries_depth_def by (rule list_max_bound)
  then show ?thesis by simp
qed

lemma entries_depth_each_of: "entries_depth (each_of v) \<le> depth v"
proof (cases v)
  case (JObj kvs)
  then show ?thesis using entries_depth_each_entries [of kvs] by simp
qed (simp_all add: entries_depth_def)

function apply_each ::
  "(string \<times> jsval) list \<Rightarrow> (string \<times> jsval option) list \<Rightarrow> (string \<times> jsval) list" where
  "apply_each oo [] = oo"
| "apply_each oo ((k, None) # es) = apply_each (assign k None oo) es"
| "apply_each oo ((k, Some v) # es) =
     apply_each
       (if instanceof_QDeleteThis v then AList.delete k oo
        else if typeof v \<noteq> ''object'' then assign k (Some v) oo
        else assign k (Some (JObj (apply_each (extend_empty (map_of oo k)) (each_of v)))) oo)
       es"
  by pat_completeness auto
termination
proof (relation "measures [\<lambda>(oo, es). entries_depth es, \<lambda>(oo, es). length es]")
  show "wf (measures [\<lambda>(oo, es). entries_depth es, \<lambda>(oo, es). length es])"
    by simp
next
  fix oo :: "(string \<times> jsval) list" and k and es :: "(string \<times> jsval option) list"
  show "((assign k None oo, es), (oo, (k, None) # es))
      \<in> measures [\<lambda>(oo, es). entries_depth es, \<lambda>(oo, es). length es]"
    by (simp add: entries_depth_def)
next
  fix oo :: "(string \<times> jsval) list" and k v and es :: "(string \<times> jsval option) list"
  show "((extend_empty (map_of oo k), each_of v), (oo, (k, Some v) # es))
      \<in> measures [\<lambda>(oo, es). entries_depth es, \<lambda>(oo, es). length es]"
    using entries_depth_each_of [of v] by (simp add: entries_depth_def less_max_iff_disj)
next
  fix oo :: "(string \<times> jsval) list" and k v and es :: "(string \<times> jsval option) list"
  show "((if instanceof_QDeleteThis v then AList.delete k oo
          else if typeof v \<noteq> ''object'' then assign k (Some v) oo
          else assign k (Some (JObj (apply_each (extend_empty (map_of oo k)) (each_of v)))) oo, es),
         (oo, (k, Some v) # es))
      \<in> measures [\<lambda>(oo, es). entries_depth es, \<lambda>(oo, es). length es]"
    by (simp add: entries_depth_def max_def)
qed

definition QData_apply ::
  "(string \<times> jsval) list \<Rightarrow> (string \<times> jsval) list \<Rightarrow> (string \<times> jsval) list" where
  "QData_apply oo d = apply_each oo (each_entries d)"

subsection \<open>\<^verbatim>\<open>QPubSub\<close>: subscribers and notification\<close>

type_synonym ref = nat
type_synonym callback = nat
type_synonym subscribers = "(string \<times> callback list) list"

text \<open>
  What a function call passes: a reference to a node, a value, a string, or an array of
  such.
\<close>

datatype arg = ARef ref | AVal jsval | AStr string | AArr "arg list"

text \<open>One invocation of a subscriber: the callback and the arguments it receives.\<close>

type_synonym invocation = "callback \<times> arg list"

text \<open>
  \<^verbatim>\<open>
  on: function(type, cb) {
    if (!this._subscribers[type]) this._subscribers[type] = [];
    this._subscribers[type].push(cb);
    return this;
  },
  off: function(type, cb) {
    this._subscribers[type] = this._subscribers[type].filter(function(v) {
      return v !== cb;
    });
  },
  \<close>
  \<^verbatim>\<open>off\<close> reads \<^verbatim>\<open>.filter\<close> from \<^verbatim>\<open>undefined\<close> when nothing was ever subscribed under
  \<open>type\<close>, which raises \<^verbatim>\<open>TypeError\<close>.
\<close>

definition QPubSub_on :: "subscribers \<Rightarrow> string \<Rightarrow> callback \<Rightarrow> subscribers" where
  "QPubSub_on subs type cb =
     (let subs1 = (case map_of subs type of None \<Rightarrow> AList.update type [] subs | Some cbs \<Rightarrow> subs)
      in case map_of subs1 type of
           None \<Rightarrow> subs1
         | Some cbs \<Rightarrow> AList.update type (cbs @ [cb]) subs1)"


text \<open>
  \<^verbatim>\<open>
  _notify: function(type) {
    var self = this;
    var args = arguments.slice(1);
    $.each(this._subscribers[type], function(_idx, sub) {
      sub(self, args);
    });
  }
  \<close>
  The \<^verbatim>\<open>arguments\<close> object of a call is array-like (indexed entries and a length) but is
  not an \<^verbatim>\<open>Array\<close>: the only methods it has are those of \<^verbatim>\<open>Object.prototype\<close>. Calling
  a method it does not have raises \<^verbatim>\<open>TypeError\<close>.
\<close>

definition arguments_methods :: "string list" where
  "arguments_methods =
     [''hasOwnProperty'', ''isPrototypeOf'', ''propertyIsEnumerable'',
      ''toLocaleString'', ''toString'', ''valueOf'']"

definition arguments_slice :: "arg list \<Rightarrow> nat \<Rightarrow> js_error + arg list" where
  "arguments_slice arguments n =
     (if ''slice'' \<in> set arguments_methods then Inr (drop n arguments) else Inl TypeError)"

text \<open>
  The loop of \<^verbatim>\<open>_notify\<close>: every subscriber of \<open>type\<close>, in order of subscription, is
  called with two arguments, the emitter and the array \<open>args\<close>. The callbacks are opaque;
  the model records the invocations.
\<close>

definition notify_each :: "subscribers \<Rightarrow> ref \<Rightarrow> string \<Rightarrow> arg list \<Rightarrow> invocation list" where
  "notify_each subs self type args =
     map (\<lambda>sub. (sub, [ARef self, AArr args]))
       (case map_of subs type of None \<Rightarrow> [] | Some cbs \<Rightarrow> cbs)"

definition QPubSub_notify ::
  "subscribers \<Rightarrow> ref \<Rightarrow> string \<Rightarrow> arg list \<Rightarrow> js_error + invocation list" where
  "QPubSub_notify subs self type rest =
     (case arguments_slice (AStr type # rest) 1 of
        Inl e \<Rightarrow> Inl e
      | Inr args \<Rightarrow> Inr (notify_each subs self type args))"

subsection \<open>Observable nodes in a store\<close>

text \<open>
  The \<^verbatim>\<open>_data\<close> of a node is a snapshot (\<^verbatim>\<open>QData\<close>), an array of nodes (\<^verbatim>\<open>QDataList\<close>) or
  an object from keys to nodes (\<^verbatim>\<open>QDataDict\<close>).
\<close>

datatype payload =
    RecordData "(string \<times> jsval) list"
  | ListData "ref list"
  | DictData "(string \<times> ref) list"

record node =
  subscribers :: subscribers
  parents :: "ref list"
  payload :: payload

type_synonym store = "ref \<Rightarrow> node"

text \<open>
  \<^verbatim>\<open>
  $.extend(QDataNode.prototype, { _addParent: ..., _removeParent: ..., _changed: ... });
  $.extend(QDataNode, { make: ... });
  QDataNode.prototype = Object.create(QPubSub);
  QData.prototype = $.extend(Object.create(QDataNode), { set: ..., data: ... });
  QDataList.prototype = $.extend(Object.create(QDataNode),
    { add: ..., remove: ..., get: ..., _childChanged: ... });
  QDataDict.prototype = $.extend(Object.create(QDataList),
    { add: ..., removeKey: ..., _childChanged: ... });
  \<close>
  The methods of the file that a node reaches through its prototype chain. The chain of a
  \<^verbatim>\<open>QData\<close> or \<^verbatim>\<open>QDataList\<close> goes from the prototype of its class to the function
  \<^verbatim>\<open>QDataNode\<close>, which has \<^verbatim>\<open>make\<close>, and on to \<^verbatim>\<open>Function.prototype\<close>; the chain of a
  \<^verbatim>\<open>QDataDict\<close> goes through the function \<^verbatim>\<open>QDataList\<close>. None passes an object that has
  \<^verbatim>\<open>on\<close>, \<^verbatim>\<open>off\<close>, \<^verbatim>\<open>_notify\<close>, \<^verbatim>\<open>_addParent\<close>, \<^verbatim>\<open>_removeParent\<close> or \<^verbatim>\<open>_changed\<close>.
\<close>

definition methods_of :: "payload \<Rightarrow> string list" where
  "methods_of p =
     (case p of
        RecordData d \<Rightarrow> [''set'', ''data'', ''make'']
      | ListData xs \<Rightarrow> [''add'', ''remove'', ''get'', ''_childChanged'', ''make'']
      | DictData kvs \<Rightarrow> [''add'', ''removeKey'', ''_childChanged''])"

definition has_method :: "store \<Rightarrow> ref \<Rightarrow> string \<Rightarrow> bool" where
  "has_method h x name = (name \<in> set (methods_of (payload (h x))))"

text \<open>
  \<^verbatim>\<open>
  _addParent: function(obj) { this._parents.push(obj); },
  _removeParent: function(obj) {
    this._parents = this._parents.filter(function(v) { return v !== obj; });
  },
  _changed: function(old) {
    var self = this;
    $.each(this._parents, function(_idx, p) { p._childChanged(self, old); });
  }
  \<close>
  The bodies of the three methods that the file writes for \<^verbatim>\<open>QDataNode.prototype\<close>.
\<close>

definition QDataNode_addParent :: "store \<Rightarrow> ref \<Rightarrow> ref \<Rightarrow> store" where
  "QDataNode_addParent h self obj = h(self := (h self)\<lparr>parents := parents (h self) @ [obj]\<rparr>)"

definition QDataNode_removeParent :: "store \<Rightarrow> ref \<Rightarrow> ref \<Rightarrow> store" where
  "QDataNode_removeParent h self obj =
     h(self := (h self)\<lparr>parents := filter (\<lambda>v. v \<noteq> obj) (parents (h self))\<rparr>)"

text \<open>
  \<^verbatim>\<open>
  // QDataList
  _childChanged: function(child, old, source) {
    if (!source) source = 'data';
    this._notify('change.'+source, child, old);
  }
  // QDataDict
  _childChanged: function(child, old) { this._notify('change', child, old); }
  \<close>
  A snapshot node has no \<^verbatim>\<open>_childChanged\<close>.
\<close>

definition childChanged ::
  "store \<Rightarrow> ref \<Rightarrow> ref \<Rightarrow> jsval \<Rightarrow> string option \<Rightarrow> js_error + invocation list" where
  "childChanged h p child old source =
     (case payload (h p) of
        ListData xs \<Rightarrow>
          QPubSub_notify (subscribers (h p)) p
            (''change.'' @ (case source of None \<Rightarrow> ''data'' | Some s \<Rightarrow> if s = [] then ''data'' else s))
            [ARef child, AVal old]
      | DictData kvs \<Rightarrow>
          QPubSub_notify (subscribers (h p)) p ''change'' [ARef child, AVal old]
      | RecordData d \<Rightarrow> Inl TypeError)"

fun changed_each :: "store \<Rightarrow> ref \<Rightarrow> jsval \<Rightarrow> ref list \<Rightarrow> js_error + invocation list" where
  "changed_each h self old [] = Inr []"
| "changed_each h self old (p # ps) =
     (case childChanged h p self old None of
        Inl e \<Rightarrow> Inl e
      | Inr tr \<Rightarrow> (case changed_each h self old ps of Inl e \<Rightarrow> Inl e | Inr tr' \<Rightarrow> Inr (tr @ tr')))"

definition QDataNode_changed :: "store \<Rightarrow> ref \<Rightarrow> jsval \<Rightarrow> js_error + invocation list" where
  "QDataNode_changed h self old = changed_each h self old (parents (h self))"

subsection \<open>\<^verbatim>\<open>QData\<close>: the record\<close>

text \<open>
  \<^verbatim>\<open>
  set: function(data) {
    var self = this;
    var old = this._data;
    this._data = $.extend({}, this._data);
    var apply = ...;
    apply(this._data, data);
    this._notify('change', old);
    this._changed(old);
    return this;
  },
  data: function() { return this._data; }
  \<close>
  The result is the store after the call together with what the call returns: the
  exception it throws, or \<^verbatim>\<open>this\<close> and the subscribers it has invoked. Only a node that
  holds a snapshot has the method.
\<close>

definition QData_set ::
  "store \<Rightarrow> ref \<Rightarrow> (string \<times> jsval) list \<Rightarrow> store \<times> (js_error + ref \<times> invocation list)" where
  "QData_set h self d =
     (case payload (h self) of
        RecordData old \<Rightarrow>
          (let h' = h(self := (h self)
                     \<lparr>payload := RecordData (QData_apply (extend_empty (Some (JObj old))) d)\<rparr>)
           in (h',
               if has_method h' self ''_notify'' then
                 (case QPubSub_notify (subscribers (h' self)) self ''change'' [AVal (JObj old)] of
                    Inl e \<Rightarrow> Inl e
                  | Inr tr \<Rightarrow>
                      if has_method h' self ''_changed'' then
                        (case QDataNode_changed h' self (JObj old) of
                           Inl e \<Rightarrow> Inl e
                         | Inr tr' \<Rightarrow> Inr (self, tr @ tr'))
                      else Inl TypeError)
               else Inl TypeError))
      | ListData xs \<Rightarrow> (h, Inl TypeError)
      | DictData kvs \<Rightarrow> (h, Inl TypeError))"

definition QData_data :: "store \<Rightarrow> ref \<Rightarrow> payload" where
  "QData_data h self = payload (h self)"

subsection \<open>\<^verbatim>\<open>QDataList\<close>: the ordered collection\<close>

text \<open>
  \<^verbatim>\<open>
  add: function(elem) {
    this._data.push(elem);
    elem._addParent(this);
    this._notify('add', elem);
    return this;
  },
  remove: function(elem) {
    var prevLength = this._data.length;
    this._data = this._data.filter(function(v) { return v !== elem; });
    if (this._data.length == prevLength) {
      throw new Error("Attempted to remove QDataObject from a collection it wasn't a member of");
    }
    elem._removeParent(this);
    this._notify('remove', elem);
    return this;
  },
  \<close>
  The elements are nodes of the store. \<^verbatim>\<open>add\<close> has pushed the element when it calls
  \<^verbatim>\<open>elem._addParent\<close>, and \<^verbatim>\<open>remove\<close> has replaced the array when it calls
  \<^verbatim>\<open>elem._removeParent\<close>; no node reaches either method.
\<close>

definition QDataList_add ::
  "store \<Rightarrow> ref \<Rightarrow> ref \<Rightarrow> store \<times> (js_error + ref \<times> invocation list)" where
  "QDataList_add h self elem =
     (case payload (h self) of
        ListData xs \<Rightarrow>
          (let h1 = h(self := (h self)\<lparr>payload := ListData (xs @ [elem])\<rparr>)
           in if has_method h1 elem ''_addParent'' then
                (let h2 = QDataNode_addParent h1 elem self
                 in (h2,
                     if has_method h2 self ''_notify'' then
                       (case QPubSub_notify (subscribers (h2 self)) self ''add'' [ARef elem] of
                          Inl e \<Rightarrow> Inl e
                        | Inr tr \<Rightarrow> Inr (self, tr))
                     else Inl TypeError))
              else (h1, Inl TypeError))
      | RecordData d \<Rightarrow> (h, Inl TypeError)
      | DictData kvs \<Rightarrow> (h, Inl TypeError))"

definition not_a_member :: js_error where
  "not_a_member =
     Error ''Attempted to remove QDataObject from a collection it wasn't a member of''"

definition QDataList_remove ::
  "store \<Rightarrow> ref \<Rightarrow> ref \<Rightarrow> store \<times> (js_error + ref \<times> invocation list)" where
  "QDataList_remove h self elem =
     (case payload (h self) of
        ListData xs \<Rightarrow>
          (let prevLength = length xs;
               ys = filter (\<lambda>v. v \<noteq> elem) xs;
               h1 = h(self := (h self)\<lparr>payload := ListData ys\<rparr>)
           in if length ys = prevLength then (h1, Inl not_a_member)
              else if has_method h1 elem ''_removeParent'' then
                (let h2 = QDataNode_removeParent h1 elem self
                 in (h2,
                     if has_method h2 self ''_notify'' then
                       (case QPubSub_notify (subscribers (h2 self)) self ''remove'' [ARef elem] of
                          Inl e \<Rightarrow> Inl e
                        | Inr tr \<Rightarrow> Inr (self, tr))
                     else Inl TypeError))
              else (h1, Inl TypeError))
      | RecordData d \<Rightarrow> (h, Inl TypeError)
      | DictData kvs \<Rightarrow> (h, Inl TypeError))"

text \<open>The members of a collection.\<close>

definition members :: "store \<Rightarrow> ref \<Rightarrow> ref list" where
  "members h c = (case payload (h c) of ListData xs \<Rightarrow> xs | DictData kvs \<Rightarrow> map snd kvs | RecordData d \<Rightarrow> [])"

subsection \<open>\<^verbatim>\<open>QDataDict\<close>: the keyed collection\<close>

text \<open>
  \<^verbatim>\<open>
  function QDataDict(data) {
    QDataList.call(this, data || {});
  }
  \<close>
  The dictionary \<^verbatim>\<open>this._data\<close> is a plain object, so \<^verbatim>\<open>this._data[key]\<close> finds the element
  stored under \<open>key\<close> and otherwise what \<^verbatim>\<open>Object.prototype\<close> has under that name: one of
  its functions, or through the accessor \<^verbatim>\<open>__proto__\<close> the object \<^verbatim>\<open>Object.prototype\<close>
  itself. None of these is \<^verbatim>\<open>undefined\<close>, none is identical to an element, and none has
  a method \<^verbatim>\<open>_removeParent\<close>. The names are those of an ECMAScript 2015 engine.
\<close>

definition Object_prototype_names :: "string list" where
  "Object_prototype_names =
     [''constructor'', ''hasOwnProperty'', ''isPrototypeOf'', ''propertyIsEnumerable'',
      ''toLocaleString'', ''toString'', ''valueOf'', ''__proto__'',
      ''__defineGetter__'', ''__defineSetter__'', ''__lookupGetter__'', ''__lookupSetter__'']"

datatype slot = Undefined | Element ref | Inherited

definition dict_get :: "(string \<times> ref) list \<Rightarrow> string \<Rightarrow> slot" where
  "dict_get kvs key =
     (case map_of kvs key of
        Some e \<Rightarrow> Element e
      | None \<Rightarrow> if key \<in> set Object_prototype_names then Inherited else Undefined)"

text \<open>
  \<^verbatim>\<open>
  add: function(key, elem) {
    if (typeof this._data[key] !== 'undefined') {
      if (this._data[key] === elem) {
        // For now it seems expedient to just ignore this case
        return;
      }
      throw new Error("Attempted to add new key to QDataDict that already existed");
    }
    this._data[key] = elem;
    elem._addParent(this);
    this._notify('add', elem);
    return this;
  },
  removeKey: function(key) {
    if (typeof this._data[key] === 'undefined') {
      throw new Error("Attempted to remove key from QDataDict that didn't actually exist");
    }
    var elem = this._data[key];
    delete this._data[key];
    elem._removeParent(this);
    this._notify('remove', elem);
    return this;
  },
  \<close>
  A call returns \<^verbatim>\<open>this\<close> (\<open>Some self\<close>) or, from the bare \<^verbatim>\<open>return\<close>, \<^verbatim>\<open>undefined\<close> (\<open>None\<close>).
  \<^verbatim>\<open>add\<close> assigns only under a key at which the dictionary reads \<^verbatim>\<open>undefined\<close>, which is
  never the name \<^verbatim>\<open>__proto__\<close>. In \<^verbatim>\<open>removeKey\<close> the \<^verbatim>\<open>delete\<close> of an inherited name removes
  nothing.
\<close>

definition duplicate_key :: js_error where
  "duplicate_key = Error ''Attempted to add new key to QDataDict that already existed''"

definition no_such_key :: js_error where
  "no_such_key = Error ''Attempted to remove key from QDataDict that didn't actually exist''"

definition QDataDict_add ::
  "store \<Rightarrow> ref \<Rightarrow> string \<Rightarrow> ref \<Rightarrow> store \<times> (js_error + ref option \<times> invocation list)" where
  "QDataDict_add h self key elem =
     (case payload (h self) of
        DictData kvs \<Rightarrow>
          (case dict_get kvs key of
             Element e \<Rightarrow> if e = elem then (h, Inr (None, [])) else (h, Inl duplicate_key)
           | Inherited \<Rightarrow> (h, Inl duplicate_key)
           | Undefined \<Rightarrow>
               (let h1 = h(self := (h self)\<lparr>payload := DictData (AList.update key elem kvs)\<rparr>)
                in if has_method h1 elem ''_addParent'' then
                     (let h2 = QDataNode_addParent h1 elem self
                      in (h2,
                          if has_method h2 self ''_notify'' then
                            (case QPubSub_notify (subscribers (h2 self)) self ''add'' [ARef elem] of
                               Inl e \<Rightarrow> Inl e
                             | Inr tr \<Rightarrow> Inr (Some self, tr))
                          else Inl TypeError))
                   else (h1, Inl TypeError)))
      | RecordData d \<Rightarrow> (h, Inl TypeError)
      | ListData xs \<Rightarrow> (h, Inl TypeError))"

definition QDataDict_removeKey ::
  "store \<Rightarrow> ref \<Rightarrow> string \<Rightarrow> store \<times> (js_error + ref option \<times> invocation list)" where
  "QDataDict_removeKey h self key =
     (case payload (h self) of
        DictData kvs \<Rightarrow>
          (case dict_get kvs key of
             Undefined \<Rightarrow> (h, Inl no_such_key)
           | Inherited \<Rightarrow> (h, Inl TypeError)
           | Element elem \<Rightarrow>
               (let h1 = h(self := (h self)\<lparr>payload := DictData (AList.delete key kvs)\<rparr>)
                in if has_method h1 elem ''_removeParent'' then
                     (let h2 = QDataNode_removeParent h1 elem self
                      in (h2,
                          if has_method h2 self ''_notify'' then
                            (case QPubSub_notify (subscribers (h2 self)) self ''remove'' [ARef elem] of
                               Inl e \<Rightarrow> Inl e
                             | Inr tr \<Rightarrow> Inr (Some self, tr))
                          else Inl TypeError))
                   else (h1, Inl TypeError)))
      | RecordData d \<Rightarrow> (h, Inl TypeError)
      | ListData xs \<Rightarrow> (h, Inl TypeError))"

subsection \<open>\<^verbatim>\<open>QTransformer\<close>\<close>

text \<open>
  \<^verbatim>\<open>
  function QTransformer(opts) {
    QDataNode.call(this);
    var self = this;
    this._data = {};
    this._base = opts.base;
    this._morph = opts.morph;
    this._unmorph = opts.unmorph;
    this._base.on('change', function(_self, old) { self.morph(); });
    this._data.on('change', function(_self, old) { self.unmorph(); });
  }
  $.extend(QTransformer.prototype, Object.create(QDataNode), {
    _morphLevel: function(data, xform) { },
    morph: function() { },
    _unmorphLevel: function(data, xform) { },
    unmorph: function() { }
  });
  \<close>
  The base is a node of the store; no node reaches \<^verbatim>\<open>on\<close>, so the constructor raises
  \<^verbatim>\<open>TypeError\<close> at \<^verbatim>\<open>this._base.on\<close> with nothing subscribed. The derived data
  \<^verbatim>\<open>this._data\<close> is the plain object \<^verbatim>\<open>{}\<close>, which has no method \<^verbatim>\<open>on\<close> either. The four
  methods have empty bodies.
\<close>

record QTransformer =
  t_subscribers :: subscribers
  t_parents :: "ref list"
  t_data :: "(string \<times> jsval) list"
  t_base :: ref
  t_morph :: "(string \<times> jsval) list \<Rightarrow> (string \<times> jsval) list"
  t_unmorph :: "(string \<times> jsval) list \<Rightarrow> (string \<times> jsval) list"

record QTransformer_opts =
  opts_base :: ref
  opts_morph :: "(string \<times> jsval) list \<Rightarrow> (string \<times> jsval) list"
  opts_unmorph :: "(string \<times> jsval) list \<Rightarrow> (string \<times> jsval) list"

text \<open>
  The constructor: \<open>cb\<close> names the closure meant for the base. The result is the store,
  the object as far as it was built, and the exception.
\<close>

definition QTransformer_new ::
  "store \<Rightarrow> QTransformer_opts \<Rightarrow> callback \<Rightarrow> store \<times> QTransformer \<times> (js_error + unit)" where
  "QTransformer_new h opts cb =
     (let this = \<lparr>t_subscribers = [], t_parents = [], t_data = [],
                   t_base = opts_base opts, t_morph = opts_morph opts,
                   t_unmorph = opts_unmorph opts\<rparr>;
          base = t_base this
      in if has_method h base ''on'' then
           (h(base := (h base)\<lparr>subscribers := QPubSub_on (subscribers (h base)) ''change'' cb\<rparr>),
            this, Inl TypeError)
         else (h, this, Inl TypeError))"

definition QTransformer_morphLevel :: "QTransformer \<Rightarrow> QTransformer" where
  "QTransformer_morphLevel this = this"

definition QTransformer_morph :: "QTransformer \<Rightarrow> QTransformer" where
  "QTransformer_morph this = this"

definition QTransformer_unmorphLevel :: "QTransformer \<Rightarrow> QTransformer" where
  "QTransformer_unmorphLevel this = this"

definition QTransformer_unmorph :: "QTransformer \<Rightarrow> QTransformer" where
  "QTransformer_unmorph this = this"

text \<open>The two closures of the constructor, as they act on the transformer.\<close>

definition base_change_handler :: "QTransformer \<Rightarrow> QTransformer" where
  "base_change_handler self = QTransformer_morph self"

definition derived_change_handler :: "QTransformer \<Rightarrow> QTransformer" where
  "derived_change_handler self = QTransformer_unmorph self"

subsection \<open>\<^verbatim>\<open>QWidget\<close>\<close>

type_synonym elem = nat

text \<open>
  \<^verbatim>\<open>
  isDirty: function() { return this._dirty; },
  element: function() { return this.$e; },
  detach: function() { this.off('change', this._changeHandler); },
  remove: function() { this.detach(); this.$e.remove(); }
  \<close>
  \<^verbatim>\<open>detach\<close> unsubscribes on the widget itself. \<^verbatim>\<open>this.$e.remove()\<close> takes the element out
  of the document, here the children of the group's container.
\<close>

record QWidget =
  w_subscribers :: subscribers
  w_data :: ref
  w_dirty :: bool
  w_e :: elem
  w_changeHandler :: callback

definition QWidget_isDirty :: "QWidget \<Rightarrow> bool" where
  "QWidget_isDirty this = w_dirty this"




subsection \<open>\<^verbatim>\<open>QWidgetGroup\<close>: sorted insertion\<close>

text \<open>
  \<^verbatim>\<open>Math.round\<close> of a half-integer \<open>n / 2\<close> rounds towards plus infinity.
  \<^verbatim>\<open>a.splice(i, 0, x)\<close> inserts before position \<open>i\<close>, where a negative \<open>i\<close> counts from the
  end and \<open>i\<close> is clamped to the array. \<^verbatim>\<open>a[i]\<close> outside the array is \<^verbatim>\<open>undefined\<close>.
\<close>

definition Math_round_half :: "int \<Rightarrow> int" where
  "Math_round_half n = (n + 1) div 2"

definition array_splice_insert :: "'a list \<Rightarrow> int \<Rightarrow> 'a \<Rightarrow> 'a list" where
  "array_splice_insert xs i x =
     (let n = int (length xs);
          start = (if i < 0 then max (n + i) 0 else min i n)
      in take (nat start) xs @ [x] @ drop (nat start) xs)"

definition array_at :: "'a list \<Rightarrow> int \<Rightarrow> 'a option" where
  "array_at xs i = (if 0 \<le> i \<and> i < int (length xs) then Some (xs ! nat i) else None)"

text \<open>
  \<^verbatim>\<open>
  _insertWidget: function(qw, l, r) {
    if (typeof l === 'undefined') {
      l = -1;
      r = this._children.length;
    }
    if (r-l === 1) {
      if (r === 0 || r === this._children.length) {
        this._children.push(qw);
        return 0;
      }
      this._children.splice(r, 0, qw);
      return r;
    }
    // Binary search
    var pivot = Math.round((l+r)/2); // r-l >= 2, therefore int(pivot) is between l and r
    var cmp = this._comparator(qw, this._children[pivot]);
    if (cmp === 0) {
      this._children.splice(pivot, 0, qw);
      return pivot;
    }
    if (cmp < 0) {
      return this._insertWidget(qw, l, pivot);
    }
    return this._insertWidget(qw, pivot, r);
  },
  \<close>
  The function is given the comparator and the array \<^verbatim>\<open>this._children\<close>, and returns the
  array after the call with the index returned. \<open>lo = None\<close> is the call without \<open>l\<close>.
  For \<open>r \<le> l\<close> the recursion of the source need not end, so not returning is the value
  \<open>None\<close>. A comparator reads its arguments, so it raises \<^verbatim>\<open>TypeError\<close> when
  \<^verbatim>\<open>this._children[pivot]\<close> is \<^verbatim>\<open>undefined\<close>.
\<close>

partial_function (option) QWidgetGroup_insertWidget ::
  "('w \<Rightarrow> 'w \<Rightarrow> int) \<Rightarrow> 'w list \<Rightarrow> 'w \<Rightarrow> int option \<Rightarrow> int
     \<Rightarrow> (js_error + 'w list \<times> int) option" where
  "QWidgetGroup_insertWidget comparator children qw lo r0 =
     (let l = (case lo of None \<Rightarrow> - 1 | Some l' \<Rightarrow> l');
          r = (case lo of None \<Rightarrow> int (length children) | Some l' \<Rightarrow> r0)
      in if r - l = 1 then
           (if r = 0 \<or> r = int (length children) then Some (Inr (children @ [qw], 0))
            else Some (Inr (array_splice_insert children r qw, r)))
         else
           (let pivot = Math_round_half (l + r)
            in case array_at children pivot of
                 None \<Rightarrow> Some (Inl TypeError)
               | Some c \<Rightarrow>
                   (let cmp = comparator qw c
                    in if cmp = 0 then Some (Inr (array_splice_insert children pivot qw, pivot))
                       else if cmp < 0 then QWidgetGroup_insertWidget comparator children qw (Some l) pivot
                       else QWidgetGroup_insertWidget comparator children qw (Some pivot) r)))"

declare QWidgetGroup_insertWidget.simps [code]

text \<open>Inserting widgets one at a time, each through the call without \<open>l\<close> and \<open>r\<close>.\<close>

fun insert_each ::
  "('w \<Rightarrow> 'w \<Rightarrow> int) \<Rightarrow> 'w list \<Rightarrow> 'w list \<Rightarrow> (js_error + 'w list) option" where
  "insert_each comparator children [] = Some (Inr children)"
| "insert_each comparator children (qw # qws) =
     (case QWidgetGroup_insertWidget comparator children qw None 0 of
        None \<Rightarrow> None
      | Some (Inl e) \<Rightarrow> Some (Inl e)
      | Some (Inr (children', idx)) \<Rightarrow> insert_each comparator children' qws)"

subsection \<open>\<^verbatim>\<open>QWidgetGroup\<close>: the group and its handlers\<close>






















section \<open>Properties\<close>

subsection \<open>Notions used by the statements\<close>






text \<open>
  Stores for the examples: every reference holds a record with the snapshot \<open>d\<close>, a
  list with the members \<open>xs\<close>, or a dictionary with the entries \<open>kvs\<close>; nothing is
  subscribed and nothing has a parent.
\<close>

definition record_store :: "(string \<times> jsval) list \<Rightarrow> store" where
  "record_store d = (\<lambda>r. \<lparr>subscribers = [], parents = [], payload = RecordData d\<rparr>)"

definition list_store :: "ref list \<Rightarrow> store" where
  "list_store xs = (\<lambda>r. \<lparr>subscribers = [], parents = [], payload = ListData xs\<rparr>)"

definition dict_store :: "(string \<times> ref) list \<Rightarrow> store" where
  "dict_store kvs = (\<lambda>r. \<lparr>subscribers = [], parents = [], payload = DictData kvs\<rparr>)"

text \<open>A comparator that orders integer keys ascending.\<close>

definition by_key :: "int \<Rightarrow> int \<Rightarrow> int" where
  "by_key a b = a - b"








text \<open>
  The transformer of the temperature scenario. \<open>morph\<close> and \<open>unmorph\<close> read a snapshot;
  the divisions are exact at the values of the scenario.
\<close>

definition celsius_opts :: QTransformer_opts where
  "celsius_opts =
     \<lparr>opts_base = 0,
      opts_morph = (\<lambda>c. case map_of c ''celsius'' of
                           Some (JNum x) \<Rightarrow> [(''fahrenheit'', JNum (x * 9 div 5 + 32))]
                         | _ \<Rightarrow> []),
      opts_unmorph = (\<lambda>f. case map_of f ''fahrenheit'' of
                             Some (JNum x) \<Rightarrow> [(''celsius'', JNum ((x - 32) * 5 div 9))]
                           | _ \<Rightarrow> [])\<rparr>"

subsection \<open>Facts about the merge\<close>


lemma call_QDeleteThis_undefined: "call_QDeleteThis = None"
  by (simp add: call_QDeleteThis_def)












subsection \<open>Facts about notification and the store\<close>

text \<open>
  \<^verbatim>\<open>_notify\<close> never gets past its second statement.
\<close>

lemma QPubSub_notify_raises: "QPubSub_notify subs self type rest = Inl TypeError"
  by (simp add: QPubSub_notify_def arguments_slice_def arguments_methods_def)

text \<open>
  Past that statement the loop would hand every subscriber two arguments, the second
  being the array of the emitted arguments.
\<close>

lemma notify_each_arguments:
  "i \<in> set (notify_each subs self type args) \<Longrightarrow> snd i = [ARef self, AArr args]"
  by (auto simp: notify_each_def)

text \<open>
  No node reaches a method of \<^verbatim>\<open>QPubSub\<close> or \<^verbatim>\<open>QDataNode\<close>, so every method that calls
  one ends by throwing, after it has changed the store.
\<close>

lemma unreached_methods:
  "\<not> has_method h x ''_notify''"
  "\<not> has_method h x ''_changed''"
  "\<not> has_method h x ''_addParent''"
  "\<not> has_method h x ''_removeParent''"
  "\<not> has_method h x ''on''"
  by (simp_all add: has_method_def methods_of_def split: payload.split)


lemma QData_set_raises:
  "payload (h r) = RecordData prior \<Longrightarrow> snd (QData_set h r p) = Inl TypeError"
  by (simp add: QData_set_def Let_def unreached_methods)

lemma store_same_payload: "payload (h c) = p \<Longrightarrow> h(c := (h c)\<lparr>payload := p\<rparr>) = h"
  by (auto simp: fun_eq_iff)

lemma QDataList_remove_non_member:
  assumes "payload (h c) = ListData xs" and "x \<notin> set xs"
  shows "QDataList_remove h c x = (h, Inl not_a_member)"
proof -
  from assms(2) have "filter (\<lambda>v. v \<noteq> x) xs = xs" by (induction xs) auto
  with assms(1) show ?thesis
    by (simp add: QDataList_remove_def store_same_payload)
qed

lemma QDataList_add_result:
  assumes "payload (h c) = ListData xs"
  shows "QDataList_add h c x = (h(c := (h c)\<lparr>payload := ListData (xs @ [x])\<rparr>), Inl TypeError)"
  using assms by (simp add: QDataList_add_def Let_def unreached_methods)

lemma QDataList_remove_member:
  assumes "payload (h c) = ListData xs" and "x \<in> set xs"
  shows "QDataList_remove h c x =
           (h(c := (h c)\<lparr>payload := ListData (filter (\<lambda>v. v \<noteq> x) xs)\<rparr>), Inl TypeError)"
proof -
  from assms(2) have "length (filter (\<lambda>v. v \<noteq> x) xs) < length xs"
    by (induction xs) (auto simp: less_Suc_eq_le)
  then have "length (filter (\<lambda>v. v \<noteq> x) xs) \<noteq> length xs" by simp
  with assms(1) show ?thesis
    by (simp add: QDataList_remove_def Let_def unreached_methods)
qed

text \<open>
  The dictionary read at a key that \<^verbatim>\<open>Object.prototype\<close> does not answer to.
\<close>

lemma dict_get_own:
  "k \<notin> set Object_prototype_names \<Longrightarrow>
   dict_get kvs k = (case map_of kvs k of None \<Rightarrow> Undefined | Some e \<Rightarrow> Element e)"
  by (simp add: dict_get_def split: option.split)

lemma QDataDict_add_free:
  assumes "payload (h d) = DictData kvs" and "dict_get kvs k = Undefined"
  shows "QDataDict_add h d k x =
           (h(d := (h d)\<lparr>payload := DictData (AList.update k x kvs)\<rparr>), Inl TypeError)"
  using assms by (simp add: QDataDict_add_def Let_def unreached_methods)

lemma QDataDict_add_held:
  assumes "payload (h d) = DictData kvs" and "dict_get kvs k = Element e"
  shows "QDataDict_add h d k x = (if e = x then (h, Inr (None, [])) else (h, Inl duplicate_key))"
  using assms by (simp add: QDataDict_add_def)

subsection \<open>Facts about the insertion\<close>

text \<open>
  The call without \<open>l\<close> and \<open>r\<close> always returns: between the bounds it starts from, the
  pivot is an index of the array and the interval shrinks.
\<close>

lemma insertWidget_without_bounds:
  "QWidgetGroup_insertWidget cmp cs qw None r0
     = QWidgetGroup_insertWidget cmp cs qw (Some (- 1)) (int (length cs))"
  by (subst QWidgetGroup_insertWidget.simps, subst (2) QWidgetGroup_insertWidget.simps) simp

lemma insertWidget_returns_within:
  "- 1 \<le> l \<Longrightarrow> l < r \<Longrightarrow> r \<le> int (length cs) \<Longrightarrow>
   \<exists>cs' i. QWidgetGroup_insertWidget cmp cs qw (Some l) r = Some (Inr (cs', i))"
proof (induction "nat (r - l)" arbitrary: l r rule: less_induct)
  case less
  show ?case
  proof (cases "r - l = 1")
    case True
    then show ?thesis
      by (subst QWidgetGroup_insertWidget.simps) simp
  next
    case False
    define pivot where "pivot = Math_round_half (l + r)"
    from False less.prems have between: "l < pivot" "pivot < r"
      by (auto simp: pivot_def Math_round_half_def)
    with less.prems obtain c where c: "array_at cs pivot = Some c"
      by (auto simp: array_at_def)
    have lower: "\<exists>cs' i. QWidgetGroup_insertWidget cmp cs qw (Some l) pivot = Some (Inr (cs', i))"
      using between less.prems by (intro less.hyps) auto
    have upper: "\<exists>cs' i. QWidgetGroup_insertWidget cmp cs qw (Some pivot) r = Some (Inr (cs', i))"
      using between less.prems by (intro less.hyps) auto
    show ?thesis
      using False c lower upper
      by (subst QWidgetGroup_insertWidget.simps) (auto simp: Let_def pivot_def)
  qed
qed

lemma insertWidget_returns:
  "\<exists>cs' i. QWidgetGroup_insertWidget cmp cs qw None r0 = Some (Inr (cs', i))"
  unfolding insertWidget_without_bounds
  by (rule insertWidget_returns_within) auto

subsection \<open>Facts about the handlers of a group\<close>




subsection \<open>The claims\<close>




text \<open>
  C2 fails on the code. With a comparator ascending by key, inserting the keys 2 and
  then 1 into the empty array leaves \<open>[2, 1]\<close>, and inserting 3, 1, 2 leaves \<open>[3, 1, 2]\<close>:
  an insertion before the first element reaches \<open>r = 0\<close>, where the routine pushes the
  widget to the end. An insertion after the last element returns the index 0 and not
  the index at which the widget was placed.
\<close>

theorem insertWidget_before_first_appends:
  "insert_each by_key [] [2, 1] = Some (Inr [2, 1]) \<and>
   insert_each by_key [] [3, 1, 2] = Some (Inr [3, 1, 2]) \<and>
   QWidgetGroup_insertWidget by_key [2] 1 None 0 = Some (Inr ([2, 1], 0)) \<and>
   QWidgetGroup_insertWidget by_key [1] 2 None 0 = Some (Inr ([1, 2], 0))"
  by (simp add: QWidgetGroup_insertWidget.simps by_key_def Math_round_half_def array_at_def
      array_splice_insert_def)
text \<open>
  C3 fails on the code. The constructor of the transformer of the temperature scenario
  throws, the four methods of a transformer are empty, and \<^verbatim>\<open>set\<close> on the base throws
  before any subscriber runs. \<open>morph\<close> of \<^verbatim>\<open>{celsius: 100}\<close> would be
  \<^verbatim>\<open>{fahrenheit: 212}\<close>, but after \<^verbatim>\<open>base.set({celsius: 100})\<close>, and even after the handler
  that the constructor means for the base has run, the derived data has no
  \<^verbatim>\<open>fahrenheit\<close>.
\<close>

theorem transformer_never_morphs:
  "(case QTransformer_new (record_store [(''celsius'', JNum 0)]) celsius_opts 7 of
      (h1, t, r) \<Rightarrow>
        (r,
         opts_morph celsius_opts [(''celsius'', JNum 100)],
         snd (QData_set h1 0 [(''celsius'', JNum 100)]),
         QData_data (fst (QData_set h1 0 [(''celsius'', JNum 100)])) 0,
         map_of (t_data (base_change_handler t)) ''fahrenheit''))
   = (Inl TypeError,
      [(''fahrenheit'', JNum 212)],
      Inl TypeError,
      RecordData [(''celsius'', JNum 100)],
      None)"
  by (simp add: QTransformer_new_def celsius_opts_def record_store_def base_change_handler_def
      QTransformer_morph_def QData_set_def QData_data_def QData_apply_def each_entries_def
      array_like_def assign_def has_method_def methods_of_def Let_def)






text \<open>
  C6, as the code has it. Let \<open>c\<close> be an ordered collection and \<open>x\<close> not a member of
  it. Then \<^verbatim>\<open>c.remove(x)\<close> throws the not-a-member error and leaves the whole store, so
  the membership of \<open>c\<close>, unchanged; and after \<^verbatim>\<open>c.add(x)\<close> and then \<^verbatim>\<open>c.remove(x)\<close> the
  collection has its prior members again, so as many as before, and the removal has
  not thrown the not-a-member error. Nothing is said of the parents of \<open>x\<close>: both calls
  end in \<^verbatim>\<open>TypeError\<close> where they turn to them (\<open>QDataList_add_result\<close>,
  \<open>QDataList_remove_member\<close>).
\<close>

theorem remove_non_member_and_add_remove:
  assumes "payload (h c) = ListData xs" and "x \<notin> set xs"
  shows "QDataList_remove h c x = (h, Inl not_a_member) \<and>
         (let h1 = fst (QDataList_add h c x);
              h2 = fst (QDataList_remove h1 c x)
          in members h2 c = members h c \<and>
             length (members h2 c) = length (members h c) \<and>
             snd (QDataList_remove h1 c x) \<noteq> Inl not_a_member)"
proof -
  let ?h1 = "h(c := (h c)\<lparr>payload := ListData (xs @ [x])\<rparr>)"
  have add: "QDataList_add h c x = (?h1, Inl TypeError)"
    using assms(1) by (rule QDataList_add_result)
  have p1: "payload (?h1 c) = ListData (xs @ [x])" by simp
  have mem: "x \<in> set (xs @ [x])" by simp
  from assms(2) have f: "filter (\<lambda>v. v \<noteq> x) (xs @ [x]) = xs" by (induction xs) auto
  have rm: "QDataList_remove ?h1 c x =
      (?h1(c := (?h1 c)\<lparr>payload := ListData (filter (\<lambda>v. v \<noteq> x) (xs @ [x]))\<rparr>), Inl TypeError)"
    using p1 mem by (rule QDataList_remove_member)
  have "members (fst (QDataList_remove ?h1 c x)) c = members h c"
    using assms(1) by (simp add: rm f members_def del: filter_append)
  moreover have "snd (QDataList_remove ?h1 c x) \<noteq> Inl not_a_member"
    by (simp add: rm not_a_member_def)
  ultimately show ?thesis
    using assms by (simp add: QDataList_remove_non_member add Let_def)
qed

text \<open>
  An instance: the collection with the members 2 and 3, and the element 1.
\<close>

theorem remove_non_member_and_add_remove_witness:
  "payload (list_store [2, 3] 0) = ListData [2, 3] \<and> (1::nat) \<notin> set [2, 3] \<and>
   QDataList_remove (list_store [2, 3]) 0 1 = (list_store [2, 3], Inl not_a_member) \<and>
   members (fst (QDataList_add (list_store [2, 3]) 0 1)) 0 = [2, 3, 1] \<and>
   members (fst (QDataList_remove (fst (QDataList_add (list_store [2, 3]) 0 1)) 0 1)) 0 = [2, 3] \<and>
   snd (QDataList_remove (fst (QDataList_add (list_store [2, 3]) 0 1)) 0 1) = Inl TypeError"
  using remove_non_member_and_add_remove [of "list_store [2, 3]" 0 "[2, 3]" 1]
  by (simp add: list_store_def members_def QDataList_add_def QDataList_remove_def
      has_method_def methods_of_def Let_def)

text \<open>
  C6 as stated fails for an \<open>x\<close> that is a member already: \<^verbatim>\<open>add\<close> appends a second
  occurrence and \<^verbatim>\<open>remove\<close> filters every occurrence out, so a collection with the one
  member \<open>x\<close> has no member after \<^verbatim>\<open>c.add(x); c.remove(x)\<close>.
\<close>

theorem add_remove_of_member_loses_it:
  "length (members (list_store [1]) 0) = 1 \<and>
   length (members (fst (QDataList_remove (fst (QDataList_add (list_store [1]) 0 1)) 0 1)) 0) = 0"
  by (simp add: list_store_def members_def QDataList_add_def QDataList_remove_def
      has_method_def methods_of_def Let_def)

text \<open>
  C7, as the code has it. Let \<open>d\<close> be a keyed collection, \<open>k\<close> a key that is not the
  name of a property of \<^verbatim>\<open>Object.prototype\<close>, and let \<open>d\<close> hold nothing or the element \<open>x\<close>
  under \<open>k\<close>. After \<^verbatim>\<open>d.add(k, x)\<close>, a second \<^verbatim>\<open>d.add(k, x)\<close> changes nothing, throws nothing
  and calls no subscriber, and \<^verbatim>\<open>d.add(k, y)\<close> with another element \<open>y\<close> throws the
  duplicate-key error and changes nothing. For every key \<open>k'\<close> that is not present,
  \<^verbatim>\<open>d.removeKey(k')\<close> throws and changes nothing; it throws the no-such-key error unless
  \<open>k'\<close> is the name of a property of \<^verbatim>\<open>Object.prototype\<close>.
\<close>

theorem add_twice_and_removeKey:
  assumes "payload (h d) = DictData kvs"
    and "k \<notin> set Object_prototype_names"
    and "map_of kvs k = None \<or> map_of kvs k = Some x"
  shows "(let h1 = fst (QDataDict_add h d k x)
          in QDataDict_add h1 d k x = (h1, Inr (None, [])) \<and>
             (y \<noteq> x \<longrightarrow> QDataDict_add h1 d k y = (h1, Inl duplicate_key))) \<and>
         (map_of kvs k' = None \<longrightarrow>
            (\<exists>e. QDataDict_removeKey h d k' = (h, Inl e)) \<and>
            (k' \<notin> set Object_prototype_names \<longrightarrow>
               QDataDict_removeKey h d k' = (h, Inl no_such_key)))"
proof -
  have held: "\<exists>kvs'. payload (fst (QDataDict_add h d k x) d) = DictData kvs' \<and>
      dict_get kvs' k = Element x"
  proof (cases "map_of kvs k")
    case None
    with assms(2) have "dict_get kvs k = Undefined" by (simp add: dict_get_own)
    with assms(1) have "QDataDict_add h d k x =
        (h(d := (h d)\<lparr>payload := DictData (AList.update k x kvs)\<rparr>), Inl TypeError)"
      by (rule QDataDict_add_free)
    then show ?thesis by (simp add: dict_get_def update_conv')
  next
    case (Some e)
    with assms(3) have e: "map_of kvs k = Some x" by simp
    then have get: "dict_get kvs k = Element x" by (simp add: dict_get_def)
    from QDataDict_add_held [of h d kvs k x x, OF assms(1) get] assms(1) get show ?thesis
      by auto
  qed
  then obtain kvs' where p1: "payload (fst (QDataDict_add h d k x) d) = DictData kvs'"
    and get1: "dict_get kvs' k = Element x"
    by blast
  have again: "QDataDict_add (fst (QDataDict_add h d k x)) d k z =
      (if x = z then (fst (QDataDict_add h d k x), Inr (None, []))
       else (fst (QDataDict_add h d k x), Inl duplicate_key))" for z
    by (rule QDataDict_add_held [of "fst (QDataDict_add h d k x)" d kvs' k x z, OF p1 get1])
  have absent: "(\<exists>e. QDataDict_removeKey h d k' = (h, Inl e)) \<and>
      (k' \<notin> set Object_prototype_names \<longrightarrow> QDataDict_removeKey h d k' = (h, Inl no_such_key))"
    if "map_of kvs k' = None"
    using assms(1) that by (simp add: QDataDict_removeKey_def dict_get_def)
  from again [of x] again [of y] absent show ?thesis
    by (auto simp: Let_def)
qed

text \<open>
  An instance: the dictionary that holds the element 5 under \<^verbatim>\<open>a\<close>, the free key \<^verbatim>\<open>k\<close>
  and the elements 1 and 2; the absent keys \<^verbatim>\<open>k\<close> and \<^verbatim>\<open>constructor\<close>.
\<close>

theorem add_twice_and_removeKey_witness:
  "payload (dict_store [(''a'', 5)] 0) = DictData [(''a'', 5)] \<and>
   ''k'' \<notin> set Object_prototype_names \<and>
   map_of [(''a'', 5::nat)] ''k'' = None \<and>
   fst (QDataDict_add (dict_store [(''a'', 5)]) 0 ''k'' 1) 0
     = \<lparr>subscribers = [], parents = [], payload = DictData [(''a'', 5), (''k'', 1)]\<rparr> \<and>
   QDataDict_add (fst (QDataDict_add (dict_store [(''a'', 5)]) 0 ''k'' 1)) 0 ''k'' 1
     = (fst (QDataDict_add (dict_store [(''a'', 5)]) 0 ''k'' 1), Inr (None, [])) \<and>
   QDataDict_add (fst (QDataDict_add (dict_store [(''a'', 5)]) 0 ''k'' 1)) 0 ''k'' 2
     = (fst (QDataDict_add (dict_store [(''a'', 5)]) 0 ''k'' 1), Inl duplicate_key) \<and>
   QDataDict_removeKey (dict_store [(''a'', 5)]) 0 ''k'' = (dict_store [(''a'', 5)], Inl no_such_key) \<and>
   QDataDict_removeKey (dict_store [(''a'', 5)]) 0 ''constructor''
     = (dict_store [(''a'', 5)], Inl TypeError)"
proof -
  have names: "''k'' \<notin> set Object_prototype_names"
    by (simp add: Object_prototype_names_def)
  have first: "fst (QDataDict_add (dict_store [(''a'', 5)]) 0 ''k'' 1) 0
     = \<lparr>subscribers = [], parents = [], payload = DictData [(''a'', 5), (''k'', 1)]\<rparr>"
    by (simp add: QDataDict_add_def dict_get_def dict_store_def Object_prototype_names_def
        has_method_def methods_of_def Let_def)
  have inherited: "QDataDict_removeKey (dict_store [(''a'', 5)]) 0 ''constructor''
     = (dict_store [(''a'', 5)], Inl TypeError)"
    by (simp add: QDataDict_removeKey_def dict_get_def dict_store_def Object_prototype_names_def)
  have store: "payload (dict_store [(''a'', 5)] 0) = DictData [(''a'', 5)]"
    by (simp add: dict_store_def)
  from add_twice_and_removeKey
    [of "dict_store [(''a'', 5)]" 0 "[(''a'', 5)]" "''k''" 1 2 "''k''", OF store names]
    names first inherited store
  show ?thesis by (simp add: Let_def)
qed

text \<open>
  C7 as stated fails in two ways. Under a key that \<^verbatim>\<open>Object.prototype\<close> answers to, the
  empty dictionary already reads a value: \<^verbatim>\<open>d.add("toString", x)\<close> throws the duplicate-key
  error, and so does the second \<^verbatim>\<open>d.add("toString", x)\<close>, which the claim has as a no-op
  that does not fail. And under a key that holds another element the second
  \<^verbatim>\<open>d.add(k, x)\<close> throws the duplicate-key error as the first did.
\<close>

theorem second_add_is_refused:
  "QDataDict_add (dict_store []) 0 ''toString'' 1 = (dict_store [], Inl duplicate_key) \<and>
   QDataDict_add (fst (QDataDict_add (dict_store []) 0 ''toString'' 1)) 0 ''toString'' 1
     = (dict_store [], Inl duplicate_key) \<and>
   QDataDict_add (dict_store [(''k'', 2)]) 0 ''k'' 1 = (dict_store [(''k'', 2)], Inl duplicate_key) \<and>
   QDataDict_add (fst (QDataDict_add (dict_store [(''k'', 2)]) 0 ''k'' 1)) 0 ''k'' 1
     = (dict_store [(''k'', 2)], Inl duplicate_key)"
  by (simp add: QDataDict_add_def dict_get_def dict_store_def Object_prototype_names_def)

text \<open>
  C8 fails on the code. Whatever the subscribers, the event type and the arguments,
  \<^verbatim>\<open>_notify\<close> throws \<^verbatim>\<open>TypeError\<close> at \<^verbatim>\<open>arguments.slice(1)\<close>: no subscriber is called, and with
  no subscriber the call is not a no-op.
\<close>

theorem notify_always_raises:
  "QPubSub_notify subs self type rest = Inl TypeError"
  by (rule QPubSub_notify_raises)



end
